theory Spec2Isabelle
  imports Main
begin

section \<open>Python values, truthiness and string helpers\<close>

text \<open>
  The XML generator \<open>qualification/xml_generator.py\<close> and the credential loader of
  \<open>config.py\<close>. Python strings are modelled as HOL strings, a character as a \<open>char\<close>;
  integers as \<open>int\<close>; an optional argument as an \<open>option\<close>. An element's text is
  assigned both strings and, in \<open>SelectionAnswer\<close>, integers, so it is a tagged value.
\<close>

datatype pyval = PyStr string | PyInt int

datatype error =
    TypeError_cannot_serialize pyval
  | AssertionError string
  | Exception string
  | OSError string
  | KeyError string
  | StopIteration
  | ExpatError

text \<open>Truthiness as \<open>if x:\<close> tests it: \<open>None\<close>, the empty string and \<open>0\<close> are false.\<close>

definition truthy_str :: "string option \<Rightarrow> bool" where
  "truthy_str x = (case x of None \<Rightarrow> False | Some s \<Rightarrow> s \<noteq> [])"

definition truthy_int :: "int option \<Rightarrow> bool" where
  "truthy_int x = (case x of None \<Rightarrow> False | Some n \<Rightarrow> n \<noteq> 0)"

definition truthy :: "pyval option \<Rightarrow> bool" where
  "truthy x = (case x of None \<Rightarrow> False | Some (PyStr s) \<Rightarrow> s \<noteq> [] | Some (PyInt n) \<Rightarrow> n \<noteq> 0)"

text \<open>\<open>str(n)\<close> for an integer: decimal digits, with a minus sign for a negative number.\<close>

fun digits :: "nat \<Rightarrow> string" where
  "digits n = (if n < 10 then [char_of (48 + n)]
               else digits (n div 10) @ [char_of (48 + n mod 10)])"

declare digits.simps [simp del]

definition str_int :: "int \<Rightarrow> string" where
  "str_int i = (if i < 0 then CHR ''-'' # digits (nat (- i)) else digits (nat i))"

text \<open>
  \<open>s.replace(c, new)\<close> where \<open>c\<close> is one character, which is how every call in the
  serializer and in \<open>_encode_for_url\<close> uses it: each occurrence of \<open>c\<close> becomes \<open>new\<close>.
\<close>

primrec str_replace :: "char \<Rightarrow> string \<Rightarrow> string \<Rightarrow> string" where
  "str_replace c new [] = []"
| "str_replace c new (x # xs) =
     (if x = c then new @ str_replace c new xs else x # str_replace c new xs)"

text \<open>
  \<open>s.split(sep)\<close> for a one-character separator. The result is never empty, so
  \<open>s.split(sep)[-1]\<close> is its last entry: the text after the last separator, and the
  whole string when there is none.
\<close>

fun split :: "char \<Rightarrow> string \<Rightarrow> string list" where
  "split sep [] = [[]]"
| "split sep (x # xs) =
     (if x = sep then [] # split sep xs
      else (case split sep xs of [] \<Rightarrow> [[x]] | y # ys \<Rightarrow> (x # y) # ys))"

section \<open>Elements and the wrapper base class\<close>

text \<open>
  \<open>ET.Element\<close>: tag, attribute dictionary (in insertion order), text and children.
  No element of this module is given a tail. Elements are built once and never changed
  after they are appended, so sharing them between a builder and a compiled root is
  not observable and they are modelled as values.
\<close>

datatype element =
  Element (el_tag: string) (el_attrib: "(string \<times> string) list")
          (el_text: "pyval option") (el_children: "element list")

text \<open>
  \<open>attrib[k] = v\<close> on an insertion-ordered dictionary: a known key keeps its place, a new
  one goes last.
\<close>

fun dict_set :: "(string \<times> string) list \<Rightarrow> string \<Rightarrow> string \<Rightarrow> (string \<times> string) list" where
  "dict_set [] k v = [(k, v)]"
| "dict_set ((k', v') # d) k v = (if k' = k then (k, v) # d else (k', v') # dict_set d k v)"

text \<open>
  \<open>XMLWrapper\<close>: the list \<open>_elements\<close> and the dictionary \<open>_attributes\<close>.
  \<open>class_name\<close> is \<open>self.__class__.__name__\<close>, which \<open>compile_elements\<close> reads.
\<close>

record XMLWrapper =
  class_name :: string
  elements :: "element list"
  attributes :: "(string \<times> string) list"

definition XMLWrapper_init :: "string \<Rightarrow> XMLWrapper" where
  "XMLWrapper_init cls = \<lparr>class_name = cls, elements = [], attributes = []\<rparr>"

definition compile_elements :: "'a XMLWrapper_scheme \<Rightarrow> string option \<Rightarrow> element" where
  "compile_elements self root_name =
     Element (if truthy_str root_name then the root_name else class_name self)
             (attributes self) None (elements self)"

section \<open>Serialization\<close>

text \<open>
  \<open>ET.tostring(tree, encoding="ascii", method="xml")\<close> of the standard library, for
  trees whose tags and attribute names are plain (not \<open>{uri}local\<close>) names, as every
  tag of this module is: \<open>_escape_cdata\<close> and \<open>_escape_attrib\<close>, \<open>_serialize_xml\<close>
  with short empty elements, the declaration that \<open>write\<close> emits for the encoding name
  \<open>ascii\<close>, and the \<open>xmlcharrefreplace\<close> error handler of the ASCII writer.
  A text that is not a string makes \<open>_escape_cdata\<close> raise \<open>TypeError\<close>.
\<close>

definition escape_cdata :: "pyval \<Rightarrow> error + string" where
  "escape_cdata text = (case text of
       PyStr s \<Rightarrow> Inr (str_replace CHR ''>'' ''&gt;''
                      (str_replace CHR ''<'' ''&lt;''
                        (str_replace CHR ''&'' ''&amp;'' s)))
     | PyInt n \<Rightarrow> Inl (TypeError_cannot_serialize text))"

definition escape_attrib :: "string \<Rightarrow> string" where
  "escape_attrib s =
     str_replace (CHR 0x09) ''&#09;''
      (str_replace (CHR 0x0A) ''&#10;''
        (str_replace (CHR 0x0D) ''&#13;''
          (str_replace (CHR 0x22) ''&quot;''
            (str_replace CHR ''>'' ''&gt;''
              (str_replace CHR ''<'' ''&lt;''
                (str_replace CHR ''&'' ''&amp;'' s))))))"

definition write_attrib :: "string \<times> string \<Rightarrow> string" where
  "write_attrib kv = '' '' @ fst kv @ ''='' @ [CHR 0x22] @ escape_attrib (snd kv) @ [CHR 0x22]"

fun serialize_xml :: "element \<Rightarrow> error + string"
  and serialize_all :: "element list \<Rightarrow> error + string" where
  "serialize_xml (Element tag attrib text children) =
     (let start = ''<'' @ tag @ concat (map write_attrib attrib) in
      if truthy text \<or> children \<noteq> [] then
        (case (if truthy text then escape_cdata (the text) else Inr []) of
           Inl e \<Rightarrow> Inl e
         | Inr t \<Rightarrow> (case serialize_all children of
                      Inl e \<Rightarrow> Inl e
                    | Inr cs \<Rightarrow> Inr (start @ ''>'' @ t @ cs @ ''</'' @ tag @ ''>'')))
      else Inr (start @ '' />''))"
| "serialize_all [] = Inr []"
| "serialize_all (e # es) =
     (case serialize_xml e of
        Inl err \<Rightarrow> Inl err
      | Inr s \<Rightarrow> (case serialize_all es of Inl err \<Rightarrow> Inl err | Inr r \<Rightarrow> Inr (s @ r)))"

definition xmlcharrefreplace :: "string \<Rightarrow> string" where
  "xmlcharrefreplace s =
     concat (map (\<lambda>c. if (of_char c :: nat) < 128 then [c]
                       else ''&#'' @ digits (of_char c) @ '';'') s)"

definition xml_declaration :: string where
  "xml_declaration = ''<?xml version='1.0' encoding='ascii'?>'' @ [CHR 0x0A]"

definition ET_tostring :: "element \<Rightarrow> error + string" where
  "ET_tostring tree = (case serialize_xml tree of
       Inl e \<Rightarrow> Inl e
     | Inr s \<Rightarrow> Inr (xmlcharrefreplace (xml_declaration @ s)))"

text \<open>
  \<open>re.sub(r"<\?xml.*\?>", '', s)\<close>: scanning from the left, every \<open><?xml\<close> that is
  followed on the same line by a \<open>?>\<close> is deleted up to the last \<open>?>\<close> of that line
  (\<open>.*\<close> is greedy and does not cross a newline).
\<close>

fun last_close :: "string \<Rightarrow> nat option" where
  "last_close [] = None"
| "last_close (c # cs) = (case last_close cs of
       Some j \<Rightarrow> Some (Suc j)
     | None \<Rightarrow> (if c = CHR ''?'' \<and> take 1 cs = ''>'' then Some 2 else None))"

function re_sub_decl :: "string \<Rightarrow> string" where
  "re_sub_decl [] = []"
| "re_sub_decl (c # cs) =
     (if take 5 (c # cs) = ''<?xml'' then
        (case last_close (takeWhile (\<lambda>x. x \<noteq> CHR 0x0A) (drop 5 (c # cs))) of
           Some j \<Rightarrow> re_sub_decl (drop (5 + j) (c # cs))
         | None \<Rightarrow> c # re_sub_decl cs)
      else c # re_sub_decl cs)"
  by pat_completeness auto
termination
  by (relation "measure length") auto

text \<open>\<open>XMLWrapper._encode_for_url\<close>: the nine replacements, one after the other.\<close>

definition encoder :: "(char \<times> string) list" where
  "encoder = [(CHR ''$'', ''%24''), (CHR ''&'', ''%26''), (CHR ''+'', ''%2B''),
              (CHR '','', ''%2C''), (CHR ''/'', ''%2F''), (CHR '':'', ''%3A''),
              (CHR '';'', ''%3B''), (CHR ''?'', ''%3F''), (CHR ''@'', ''%40'')]"

definition encode_for_url :: "string \<Rightarrow> string" where
  "encode_for_url text = foldl (\<lambda>text (char, code). str_replace char code text) text encoder"

text \<open>
  \<open>XMLWrapper.to_string\<close>, for \<open>root_name\<close> left at its default \<open>None\<close>.
  \<open>minidom.parseString(s).toprettyxml(indent)\<close> is the standard library's DOM reader
  and writer; it is the parameter \<open>toprettyxml\<close>, given the indent string and the text,
  and everything proved below holds whatever it returns.
\<close>

definition to_string ::
  "(string \<Rightarrow> string \<Rightarrow> error + string) \<Rightarrow> 'a XMLWrapper_scheme \<Rightarrow> bool \<Rightarrow> bool \<Rightarrow> int
     \<Rightarrow> error + string" where
  "to_string toprettyxml self url_safe formatted indent =
     (case ET_tostring (compile_elements self None) of
        Inl e \<Rightarrow> Inl e
      | Inr tree_str \<Rightarrow>
          (case (if formatted then toprettyxml (replicate (nat indent) CHR '' '') tree_str
                 else Inr tree_str) of
             Inl e \<Rightarrow> Inl e
           | Inr tree_str \<Rightarrow>
               (let tree_str = drop 1 (re_sub_decl tree_str) in
                Inr (if url_safe then encode_for_url tree_str else tree_str))))"

text \<open>
  The spec's description of URL-safe encoding: one pass over the text in which each of the
  nine reserved characters is replaced by its percent code and every other character is
  kept.
\<close>

definition spec_url_code :: "char \<Rightarrow> string" where
  "spec_url_code c =
     (if c = CHR ''$'' then ''%24'' else if c = CHR ''&'' then ''%26''
      else if c = CHR ''+'' then ''%2B'' else if c = CHR '','' then ''%2C''
      else if c = CHR ''/'' then ''%2F'' else if c = CHR '':'' then ''%3A''
      else if c = CHR '';'' then ''%3B'' else if c = CHR ''?'' then ''%3F''
      else if c = CHR ''@'' then ''%40'' else [c])"

section \<open>Content\<close>

definition append_element :: "element \<Rightarrow> 'a XMLWrapper_scheme \<Rightarrow> 'a XMLWrapper_scheme" where
  "append_element e self = self\<lparr>elements := elements self @ [e]\<rparr>"

definition Content_init :: XMLWrapper where
  "Content_init = XMLWrapper_init ''Content''"

definition add_title :: "string \<Rightarrow> XMLWrapper \<Rightarrow> XMLWrapper" where
  "add_title title self = append_element (Element ''Title'' [] (Some (PyStr title)) []) self"

definition add_text :: "string \<Rightarrow> XMLWrapper \<Rightarrow> XMLWrapper" where
  "add_text text self = append_element (Element ''Text'' [] (Some (PyStr text)) []) self"

definition add_formatted_text :: "string \<Rightarrow> XMLWrapper \<Rightarrow> XMLWrapper" where
  "add_formatted_text text self =
     append_element
       (Element ''FormattedContent'' [] (Some (PyStr (''<![CDATA['' @ text @ '']]>''))) []) self"

definition add_list :: "string list \<Rightarrow> XMLWrapper \<Rightarrow> XMLWrapper" where
  "add_list items self =
     append_element
       (Element ''List'' [] None (map (\<lambda>i. Element ''ListItem'' [] (Some (PyStr i)) []) items))
       self"

text \<open>\<open>alt_text\<close> defaults to \<open>"image"\<close> in the source; the model takes it explicitly.\<close>

definition add_image :: "string \<Rightarrow> string \<Rightarrow> XMLWrapper \<Rightarrow> XMLWrapper" where
  "add_image url alt_text self =
     (let name = Element ''Type'' [] (Some (PyStr ''image'')) [];
          mime_type_elem = Element ''MimeType'' [] None
            (if last (split CHR ''.'' url) \<noteq> []
             then [name, Element ''SubType'' [] (Some (PyStr (last (split CHR ''.'' url)))) []]
             else [name]);
          data_url_elem = Element ''DataURL'' [] (Some (PyStr url)) [];
          alt_text_elem = Element ''AltText'' [] (Some (PyStr alt_text)) [];
          element = Element ''Binary'' [] None [mime_type_elem, data_url_elem, alt_text_elem]
      in append_element element self)"

section \<open>Answers\<close>

definition create_reg_exp :: "string \<Rightarrow> string option \<Rightarrow> element" where
  "create_reg_exp reg_exp error_text =
     (let attrib = dict_set [] ''regex'' reg_exp;
          attrib = (if truthy_str error_text then dict_set attrib ''errorText'' (the error_text)
                    else attrib)
      in Element ''AnswerFormatRegex'' attrib None [])"

definition add_length_constraints :: "int option \<Rightarrow> int option \<Rightarrow> element" where
  "add_length_constraints min_length max_length =
     (let attrib = [];
          attrib = (if truthy_int min_length
                    then dict_set attrib ''minLength'' (str_int (the min_length)) else attrib);
          attrib = (if truthy_int max_length
                    then dict_set attrib ''maxLength'' (str_int (the max_length)) else attrib)
      in Element ''Length'' attrib None [])"

definition create_is_numeric :: "int option \<Rightarrow> int option \<Rightarrow> element" where
  "create_is_numeric min_val max_val =
     (let attrib = [];
          attrib = (if truthy_int min_val
                    then dict_set attrib ''minValue'' (str_int (the min_val)) else attrib);
          attrib = (if truthy_int max_val
                    then dict_set attrib ''maxValue'' (str_int (the max_val)) else attrib)
      in Element ''IsNumeric'' attrib None [])"

definition el_append :: "element \<Rightarrow> element \<Rightarrow> element" where
  "el_append parent child =
     Element (el_tag parent) (el_attrib parent) (el_text parent) (el_children parent @ [child])"

definition add_constraints ::
  "string option \<Rightarrow> string option \<Rightarrow> int option \<Rightarrow> int option \<Rightarrow> bool \<Rightarrow> int option \<Rightarrow> int option
     \<Rightarrow> XMLWrapper \<Rightarrow> XMLWrapper" where
  "add_constraints reg_exp error_text min_length max_length is_numeric min_val max_val self =
     (let constraints = Element ''Constraints'' [] None [];
          constraints = (if truthy_str reg_exp \<and> \<not> is_numeric
                         then el_append constraints (create_reg_exp (the reg_exp) error_text)
                         else constraints);
          constraints = (if (truthy_int min_length \<or> truthy_int max_length) \<and> \<not> is_numeric
                         then el_append constraints (add_length_constraints min_length max_length)
                         else constraints);
          constraints = (if is_numeric
                         then el_append constraints (create_is_numeric min_val max_val)
                         else constraints)
      in append_element constraints self)"

definition set_number_of_lines :: "int \<Rightarrow> XMLWrapper \<Rightarrow> XMLWrapper" where
  "set_number_of_lines num_lines self =
     append_element (Element ''NumberOfLinesSuggestion'' [] (Some (PyStr (str_int num_lines))) []) self"

definition add_default_text :: "string \<Rightarrow> XMLWrapper \<Rightarrow> XMLWrapper" where
  "add_default_text text self =
     append_element (Element ''DefaultText'' [] (Some (PyStr text)) []) self"

definition FreeTextAnswer_init ::
  "string option \<Rightarrow> int option \<Rightarrow> string option \<Rightarrow> string option \<Rightarrow> int option \<Rightarrow> int option
     \<Rightarrow> bool \<Rightarrow> int option \<Rightarrow> int option \<Rightarrow> XMLWrapper" where
  "FreeTextAnswer_init default_text lines_in_box reg_exp error_text min_length max_length
       is_numeric min_val max_val =
     (let self = XMLWrapper_init ''FreeTextAnswer'';
          self = (if truthy_str reg_exp \<or> truthy_int min_length \<or> truthy_int max_length
                     \<or> is_numeric
                  then add_constraints reg_exp error_text min_length max_length is_numeric
                         min_val max_val self
                  else self);
          self = (if truthy_str default_text then add_default_text (the default_text) self
                  else self);
          self = (if truthy_int lines_in_box then set_number_of_lines (the lines_in_box) self
                  else self)
      in self)"

text \<open>
  \<open>SelectionAnswer\<close>. The selections dictionary is the list of its items in insertion
  order. \<open>_add_min_selections\<close> and \<open>_add_max_selections\<close> store the number itself as
  the element's text, where \<open>_set_number_of_lines\<close> stores \<open>str(num_lines)\<close>.
\<close>

definition add_min_selections :: "int \<Rightarrow> XMLWrapper \<Rightarrow> XMLWrapper" where
  "add_min_selections number self =
     append_element (Element ''MinSelectionCount'' [] (Some (PyInt number)) []) self"

definition add_max_selections :: "int \<Rightarrow> XMLWrapper \<Rightarrow> XMLWrapper" where
  "add_max_selections number self =
     append_element (Element ''MaxSelectionCount'' [] (Some (PyInt number)) []) self"

definition add_answer_style :: "string \<Rightarrow> XMLWrapper \<Rightarrow> XMLWrapper" where
  "add_answer_style style self =
     append_element (Element ''StyleSuggestion'' [] (Some (PyStr style)) []) self"

definition add_selections :: "(string \<times> string) list \<Rightarrow> XMLWrapper \<Rightarrow> XMLWrapper" where
  "add_selections selections self =
     append_element
       (Element ''Selections'' [] None
          (map (\<lambda>(i, s). Element ''Selection'' [] None
                  [Element ''SelectionIdentifier'' [] (Some (PyStr i)) [],
                   Element ''Text'' [] (Some (PyStr s)) []])
               selections))
       self"

definition SelectionAnswer_init ::
  "(string \<times> string) list \<Rightarrow> string option \<Rightarrow> int option \<Rightarrow> int option \<Rightarrow> XMLWrapper" where
  "SelectionAnswer_init selections answer_style min_selections max_selections =
     (let self = XMLWrapper_init ''SelectionAnswer'';
          self = (if truthy_int min_selections then add_min_selections (the min_selections) self
                  else self);
          self = (if truthy_int max_selections then add_max_selections (the max_selections) self
                  else self);
          self = (if truthy_str answer_style then add_answer_style (the answer_style) self
                  else self)
      in add_selections selections self)"

section \<open>Question and the class counter\<close>

text \<open>
  \<open>Question._ID\<close> is a class attribute, shared by every instance of the process. The
  constructor takes its current value and returns the new one with the question.
\<close>

record Question = XMLWrapper +
  question_id :: string

definition add_id :: "Question \<Rightarrow> int \<Rightarrow> Question \<times> int" where
  "add_id self ID =
     (let element = Element ''QuestionIdentifier'' [] (Some (PyStr (question_id self))) [];
          ID = ID + 1
      in (append_element element self, ID))"

definition add_name :: "string \<Rightarrow> Question \<Rightarrow> Question" where
  "add_name name self = append_element (Element ''DisplayName'' [] (Some (PyStr name)) []) self"

definition add_is_required :: "bool \<Rightarrow> Question \<Rightarrow> Question" where
  "add_is_required is_required self =
     append_element
       (Element ''IsRequired'' [] (Some (PyStr (if is_required then ''true'' else ''false''))) [])
       self"

definition add_content :: "XMLWrapper \<Rightarrow> Question \<Rightarrow> Question" where
  "add_content content self =
     append_element (compile_elements content (Some ''QuestionContent'')) self"

definition add_answer :: "XMLWrapper \<Rightarrow> Question \<Rightarrow> Question" where
  "add_answer answer self =
     append_element (Element ''AnswerSpecification'' [] None [compile_elements answer None]) self"

definition Question_init ::
  "XMLWrapper \<Rightarrow> XMLWrapper \<Rightarrow> string option \<Rightarrow> bool \<Rightarrow> string option \<Rightarrow> int \<Rightarrow> Question \<times> int" where
  "Question_init content answer name is_required qid ID =
     (let self = \<lparr>class_name = ''Question'', elements = [], attributes = [],
                  question_id = (if truthy_str qid then the qid
                                 else ''QuestionID_'' @ str_int ID)\<rparr>;
          (self, ID) = add_id self ID;
          self = (if truthy_str name then add_name (the name) self else self);
          self = add_is_required is_required self;
          self = add_content content self;
          self = add_answer answer self
      in (self, ID))"

text \<open>
  The constructions of one process, in order: each takes the counter the previous one
  left. The counter is 1 when the module is loaded.
\<close>

datatype question_args =
  QuestionArgs (arg_content: XMLWrapper) (arg_answer: XMLWrapper) (arg_name: "string option")
               (arg_is_required: bool) (arg_question_id: "string option")

definition initial_ID :: int where
  "initial_ID = 1"

fun construct_questions :: "question_args list \<Rightarrow> int \<Rightarrow> Question list \<times> int" where
  "construct_questions [] ID = ([], ID)"
| "construct_questions (a # as) ID =
     (let (q, ID) = Question_init (arg_content a) (arg_answer a) (arg_name a)
                      (arg_is_required a) (arg_question_id a) ID;
          (qs, ID) = construct_questions as ID
      in (q # qs, ID))"

text \<open>The identifiers of the questions constructed without a caller-supplied id, in order.\<close>

definition auto_assigned :: "question_args list \<Rightarrow> Question list \<Rightarrow> string list" where
  "auto_assigned as qs =
     map (\<lambda>(a, q). question_id q)
         (filter (\<lambda>(a, q). \<not> truthy_str (arg_question_id a)) (zip as qs))"

section \<open>QuestionForm and AnswerKey\<close>

definition QuestionForm_init :: XMLWrapper where
  "QuestionForm_init =
     (let self = XMLWrapper_init ''QuestionForm'' in
      self\<lparr>attributes := dict_set (attributes self) ''xmlns''
        ''http://mechanicalturk.amazonaws.com/AWSMechanicalTurkDataSchemas/2017-11-06/QuestionForm.xsd''\<rparr>)"

definition add_overview :: "XMLWrapper \<Rightarrow> XMLWrapper \<Rightarrow> XMLWrapper" where
  "add_overview overview self = append_element (compile_elements overview (Some ''Overview'')) self"

definition add_question :: "Question \<Rightarrow> XMLWrapper \<Rightarrow> XMLWrapper" where
  "add_question question self = append_element (compile_elements question (Some ''Question'')) self"

record AnswerKey = XMLWrapper +
  is_score_added :: bool

definition AnswerKey_init :: AnswerKey where
  "AnswerKey_init =
     \<lparr>class_name = ''AnswerKey'', elements = [],
      attributes = dict_set [] ''xmlns''
        ''http://mechanicalturk.amazonaws.com/AWSMechanicalTurkDataSchemas/2005-10-01/AnswerKey.xsd'',
      is_score_added = False\<rparr>"

text \<open>
  A method that can raise returns the exception, if any, with the object as the call
  left it: the caller still holds the object after catching the exception.
\<close>

definition add_max_score :: "int \<Rightarrow> AnswerKey \<Rightarrow> error option \<times> AnswerKey" where
  "add_max_score score self =
     (if is_score_added self
      then (Some (AssertionError ''Score was already added to the answers''), self)
      else
        (let max_score = Element ''MaximumSummedScore'' [] (Some (PyStr (str_int score))) [];
             percentage = Element ''PercentageMapping'' [] None [max_score];
             element = Element ''QualificationValueMapping'' [] None [percentage];
             self = append_element element self;
             self = self\<lparr>is_score_added := True\<rparr>
         in (None, self)))"

definition create_question_id :: "string \<Rightarrow> element" where
  "create_question_id qid = Element ''QuestionIdentifier'' [] (Some (PyStr qid)) []"

definition create_question_keys :: "(int \<times> string list) list \<Rightarrow> element list" where
  "create_question_keys keys =
     map (\<lambda>(score, answers).
            Element ''AnswerOption'' [] None
              (map (\<lambda>a. Element ''SelectionIdentifier'' [] (Some (PyStr a)) []) answers
               @ [Element ''AnswerScore'' [] (Some (PyStr (str_int score))) []]))
         keys"

definition add_question_keys :: "Question \<Rightarrow> (int \<times> string list) list \<Rightarrow> AnswerKey \<Rightarrow> AnswerKey" where
  "add_question_keys question keys self =
     append_element
       (Element ''Question'' [] None
          (create_question_id (question_id question) # create_question_keys keys))
       self"

section \<open>The credential loader\<close>

text \<open>
  \<open>AmazonIAMUser\<close> of \<open>config.py\<close>. A field is \<open>None\<close> until \<open>_update_fields\<close> assigns
  it (the constructor stores a placeholder object there). The file system is a map from
  paths to contents, and \<open>opened\<close> lists the paths given to \<open>open\<close> so far.
  \<open>next(csv.DictReader(file).__iter__())\<close> and \<open>json.load(file)\<close> are the standard
  library's readers: they are the parameters \<open>first_row\<close> and \<open>json_load\<close>, from a
  file's contents to the dictionary read or the exception raised.
\<close>

record AmazonIAMUser =
  user_name :: "string option"
  password :: "string option"
  access_key_id :: "string option"
  secret_access_key :: "string option"
  console_login_link :: "string option"

definition AmazonIAMUser_init :: AmazonIAMUser where
  "AmazonIAMUser_init =
     \<lparr>user_name = None, password = None, access_key_id = None, secret_access_key = None,
      console_login_link = None\<rparr>"

definition load_file ::
  "(string \<Rightarrow> error + (string \<times> string) list) \<Rightarrow> (string \<rightharpoonup> string) \<Rightarrow> string \<Rightarrow> string list
     \<Rightarrow> (error + (string \<times> string) list) \<times> string list" where
  "load_file reader fs path opened =
     (case fs path of
        None \<Rightarrow> (Inl (OSError path), opened @ [path])
      | Some contents \<Rightarrow> (reader contents, opened @ [path]))"

definition update_fields :: "(string \<times> string) list \<Rightarrow> AmazonIAMUser \<Rightarrow> error option \<times> AmazonIAMUser" where
  "update_fields credentials self =
     (case map_of credentials ''User name'' of
        None \<Rightarrow> (Some (KeyError ''User name''), self)
      | Some v1 \<Rightarrow>
     (let self = self\<lparr>user_name := Some v1\<rparr> in
      case map_of credentials ''Password'' of
        None \<Rightarrow> (Some (KeyError ''Password''), self)
      | Some v2 \<Rightarrow>
     (let self = self\<lparr>password := Some v2\<rparr> in
      case map_of credentials ''Access key ID'' of
        None \<Rightarrow> (Some (KeyError ''Access key ID''), self)
      | Some v3 \<Rightarrow>
     (let self = self\<lparr>access_key_id := Some v3\<rparr> in
      case map_of credentials ''Secret access key'' of
        None \<Rightarrow> (Some (KeyError ''Secret access key''), self)
      | Some v4 \<Rightarrow>
     (let self = self\<lparr>secret_access_key := Some v4\<rparr> in
      case map_of credentials ''Console login link'' of
        None \<Rightarrow> (Some (KeyError ''Console login link''), self)
      | Some v5 \<Rightarrow> (None, self\<lparr>console_login_link := Some v5\<rparr>))))))"

definition from_file ::
  "(string \<Rightarrow> error + (string \<times> string) list) \<Rightarrow> (string \<Rightarrow> error + (string \<times> string) list)
     \<Rightarrow> (string \<rightharpoonup> string) \<Rightarrow> string \<Rightarrow> AmazonIAMUser \<Rightarrow> string list
     \<Rightarrow> error option \<times> AmazonIAMUser \<times> string list" where
  "from_file first_row json_load fs file_path self opened =
     (let extension = last (split CHR ''.'' file_path) in
      if extension = ''csv'' then
        (case load_file first_row fs file_path opened of
           (Inl e, opened) \<Rightarrow> (Some e, self, opened)
         | (Inr credentials, opened) \<Rightarrow>
             (case update_fields credentials self of (r, self) \<Rightarrow> (r, self, opened)))
      else if extension = ''json'' then
        (case load_file json_load fs file_path opened of
           (Inl e, opened) \<Rightarrow> (Some e, self, opened)
         | (Inr credentials, opened) \<Rightarrow>
             (case update_fields credentials self of (r, self) \<Rightarrow> (r, self, opened)))
      else (Some (Exception ''Unknown file extension''), self, opened))"

section \<open>Tags of a tree\<close>

fun tags :: "element \<Rightarrow> string list" where
  "tags (Element t a x cs) = t # concat (map tags cs)"

section \<open>Histories of calls\<close>

text \<open>
  The calls a caller can make on an \<open>AnswerKey\<close>, for statements about every key that
  a sequence of calls can reach. A call that raises leaves the key with the caller.
\<close>

datatype key_call = AddMaxScore int | AddQuestionKeys Question "(int \<times> string list) list"

fun apply_key_call :: "AnswerKey \<Rightarrow> key_call \<Rightarrow> AnswerKey" where
  "apply_key_call self (AddMaxScore score) = snd (add_max_score score self)"
| "apply_key_call self (AddQuestionKeys question keys) = add_question_keys question keys self"

text \<open>
  The counter values that a run of constructions starting at \<open>ID\<close> gives to the
  questions constructed without a caller-supplied id.
\<close>

fun auto_numbers :: "question_args list \<Rightarrow> int \<Rightarrow> int list" where
  "auto_numbers [] ID = []"
| "auto_numbers (a # as) ID =
     (if truthy_str (arg_question_id a) then auto_numbers as (ID + 1)
      else ID # auto_numbers as (ID + 1))"

section \<open>Example inputs\<close>

definition example_question :: Question where
  "example_question = fst (Question_init (add_text ''What?'' Content_init)
      (FreeTextAnswer_init (Some ''C1'') None None None (Some 2) (Some 2) False None None)
      (Some ''The Next Move'') True (Some ''nextmove'') initial_ID)"

definition example_constructions :: "question_args list" where
  "example_constructions =
     [QuestionArgs (add_text ''First?'' Content_init) (SelectionAnswer_init [] None None None)
        None False None,
      QuestionArgs (add_text ''Second?'' Content_init) (SelectionAnswer_init [] None None None)
        None False (Some ''mine''),
      QuestionArgs (add_text ''Third?'' Content_init) (SelectionAnswer_init [] None None None)
        None False None]"

definition example_credentials :: "(string \<times> string) list" where
  "example_credentials =
     [(''User name'', ''alice''), (''Password'', ''pw''), (''Access key ID'', ''AKIA''),
      (''Secret access key'', ''secret''), (''Console login link'', ''https://console'')]"

section \<open>Decimal rendering is injective\<close>

lemma digits_nonempty: "digits n \<noteq> []"
  by (subst digits.simps) simp

lemma last_digits: "last (digits n) = char_of (48 + n mod 10)"
  by (subst digits.simps) simp

lemma butlast_digits: "butlast (digits n) = (if n < 10 then [] else digits (n div 10))"
  by (subst digits.simps) simp

lemma digit_char_inj:
  "a < 10 \<Longrightarrow> b < 10 \<Longrightarrow> char_of (48 + a) = (char_of (48 + b) :: char) \<Longrightarrow> a = (b::nat)"
  by (simp add: char_of_eq_iff take_bit_eq_mod)

lemma digits_inj: "digits m = digits n \<Longrightarrow> m = n"
proof (induction m arbitrary: n rule: less_induct)
  case (less m)
  from less.prems have l: "last (digits m) = last (digits n)"
    and b: "butlast (digits m) = butlast (digits n)" by simp_all
  from l have m10: "m mod 10 = n mod 10"
    by (simp add: last_digits digit_char_inj)
  show ?case
  proof (cases "m < 10")
    case True
    with b have "n < 10"
      using digits_nonempty[of "n div 10"]
      by (auto simp: butlast_digits split: if_splits)
    with True m10 show ?thesis by simp
  next
    case False
    with b have n: "\<not> n < 10" and d: "digits (m div 10) = digits (n div 10)"
      using digits_nonempty[of "m div 10"]
      by (auto simp: butlast_digits split: if_splits)
    from False have "m div 10 < m" by simp
    from less.IH[OF this d] have "m div 10 = n div 10" .
    with m10 show ?thesis
      by (metis div_mult_mod_eq)
  qed
qed

lemma digits_no_minus: "CHR ''-'' \<notin> set (digits n)"
proof (induction n rule: less_induct)
  case (less n)
  have c: "char_of (48 + n mod 10) \<noteq> CHR ''-''"
  proof
    assume "char_of (48 + n mod 10) = CHR ''-''"
    then have "of_char (char_of (48 + n mod 10) :: char) = (of_char CHR ''-'' :: nat)" by simp
    then have "(48 + n mod 10) mod 256 = 45" by (simp add: take_bit_eq_mod)
    moreover have "n mod 10 < 10" by simp
    then have "(48 + n mod 10) mod 256 = 48 + n mod 10" by simp
    ultimately show False by simp
  qed
  show ?case
  proof (cases "n < 10")
    case True
    then show ?thesis using c by (subst digits.simps) simp
  next
    case False
    then have "n div 10 < n" by simp
    from less.IH[OF this] show ?thesis using c False by (subst digits.simps) simp
  qed
qed

lemma str_int_inj: "str_int i = str_int j \<Longrightarrow> i = j"
proof -
  assume e: "str_int i = str_int j"
  have neg: "\<And>a b. CHR ''-'' # digits a \<noteq> digits b"
    using digits_no_minus by (metis list.set_intros(1))
  show ?thesis
  proof (cases "i < 0")
    case True
    with e neg[of "nat (- i)" "nat j"] have j: "j < 0"
      by (auto simp: str_int_def split: if_splits)
    with e True have "digits (nat (- i)) = digits (nat (- j))" by (simp add: str_int_def)
    then have "nat (- i) = nat (- j)" by (rule digits_inj)
    with True j show ?thesis by simp
  next
    case False
    with e neg[of "nat (- j)" "nat i"] have j: "\<not> j < 0"
      by (auto simp: str_int_def split: if_splits)
    with e False have "digits (nat i) = digits (nat j)" by (simp add: str_int_def)
    then have "nat i = nat j" by (rule digits_inj)
    with False j show ?thesis by simp
  qed
qed

section \<open>URL-safe encoding\<close>

lemma str_replace_append:
  "str_replace c new (xs @ ys) = str_replace c new xs @ str_replace c new ys"
  by (induction xs) auto

lemma encode_for_url_Nil: "encode_for_url [] = []"
  by (simp add: encode_for_url_def encoder_def)

lemma encode_for_url_Cons: "encode_for_url (x # xs) = spec_url_code x @ encode_for_url xs"
  by (simp add: encode_for_url_def encoder_def spec_url_code_def str_replace_append)

text \<open>
  C4. The nine successive replacements of \<open>_encode_for_url\<close> amount to one pass that maps
  each of \<open>$ & + , / : ; ? @\<close> to its percent code and keeps every other character;
  \<open>to_string\<close> with \<open>url_safe\<close> applies it last, to the whole rendered text; \<open>&\<close> becomes
  \<open>%26\<close>, \<open>?\<close> becomes \<open>%3F\<close>, and \<open><\<close>, \<open>>\<close> and \<open>%\<close> stay.
\<close>

theorem encode_for_url_nine_characters:
  "encode_for_url text = concat (map spec_url_code text)
   \<and> to_string toprettyxml self True formatted indent
       = map_sum id encode_for_url (to_string toprettyxml self False formatted indent)
   \<and> spec_url_code CHR ''&'' = ''%26'' \<and> spec_url_code CHR ''?'' = ''%3F''
   \<and> spec_url_code CHR ''<'' = ''<'' \<and> spec_url_code CHR ''>'' = ''>''
   \<and> spec_url_code CHR ''%'' = ''%''"
proof -
  have "encode_for_url text = concat (map spec_url_code text)"
    by (induction "text") (simp_all add: encode_for_url_Nil encode_for_url_Cons)
  moreover have "to_string toprettyxml self True formatted indent
       = map_sum id encode_for_url (to_string toprettyxml self False formatted indent)"
    by (simp add: to_string_def Let_def split: sum.splits)
  ultimately show ?thesis
    by (simp add: spec_url_code_def)
qed

theorem encode_for_url_nine_characters_witness:
  "encode_for_url ''<b>&amp;</b>?%'' = ''<b>%26amp%3B<%2Fb>%3F%''"
  using encode_for_url_nine_characters [THEN conjunct1, of "''<b>&amp;</b>?%''"]
  by (simp add: spec_url_code_def)

section \<open>AnswerKey: the maximum score is set once\<close>

lemma key_call_keeps_flag: "is_score_added k \<Longrightarrow> is_score_added (apply_key_call k c)"
  by (cases c) (simp_all add: add_max_score_def add_question_keys_def append_element_def)

lemma key_calls_keep_flag: "is_score_added k \<Longrightarrow> is_score_added (foldl apply_key_call k cs)"
  by (induction cs arbitrary: k) (simp_all add: key_call_keeps_flag)

lemma add_max_score_sets_flag: "add_max_score score k = (None, k') \<Longrightarrow> is_score_added k'"
  by (auto simp: add_max_score_def Let_def split: if_splits)

text \<open>
  C3. Once \<open>add_max_score\<close> has succeeded on a key, then after any further calls on it a
  call of \<open>add_max_score\<close> raises the assertion error and leaves the key as it was: the
  same elements, the same rendered text.
\<close>

theorem add_max_score_twice:
  assumes "add_max_score score1 k0 = (None, k1)"
    and "k2 = foldl apply_key_call k1 calls"
  shows "add_max_score score2 k2
           = (Some (AssertionError ''Score was already added to the answers''), k2)
         \<and> elements (snd (add_max_score score2 k2)) = elements k2
         \<and> to_string toprettyxml (snd (add_max_score score2 k2)) url_safe formatted indent
             = to_string toprettyxml k2 url_safe formatted indent"
proof -
  from assms have "is_score_added k2"
    by (simp add: add_max_score_sets_flag key_calls_keep_flag)
  then show ?thesis by (simp add: add_max_score_def)
qed

theorem add_max_score_twice_witness:
  "fst (add_max_score 15 AnswerKey_init) = None
   \<and> add_max_score 20
        (foldl apply_key_call (snd (add_max_score 15 AnswerKey_init))
           [AddQuestionKeys example_question [(5, [''D''])]])
      = (Some (AssertionError ''Score was already added to the answers''),
         foldl apply_key_call (snd (add_max_score 15 AnswerKey_init))
           [AddQuestionKeys example_question [(5, [''D''])]])"
  using add_max_score_twice [of 15 AnswerKey_init "snd (add_max_score 15 AnswerKey_init)"
      "foldl apply_key_call (snd (add_max_score 15 AnswerKey_init))
           [AddQuestionKeys example_question [(5, [''D''])]]"
      "[AddQuestionKeys example_question [(5, [''D''])]]" 20]
  by (simp add: add_max_score_def AnswerKey_init_def)

section \<open>FreeTextAnswer constraints\<close>

lemma is_numeric_attrib_keys:
  "set (map fst (el_attrib (create_is_numeric min_val max_val))) \<subseteq> {''minValue'', ''maxValue''}"
  by (simp add: create_is_numeric_def Let_def)

lemma tags_is_numeric: "tags (create_is_numeric min_val max_val) = [''IsNumeric'']"
  by (simp add: create_is_numeric_def Let_def)

lemma numeric_elements:
  "elements (FreeTextAnswer_init default_text lines_in_box reg_exp error_text min_length
               max_length True min_val max_val)
     = [Element ''Constraints'' [] None [create_is_numeric min_val max_val]]
       @ (if truthy_str default_text
          then [Element ''DefaultText'' [] (Some (PyStr (the default_text))) []] else [])
       @ (if truthy_int lines_in_box
          then [Element ''NumberOfLinesSuggestion'' []
                  (Some (PyStr (str_int (the lines_in_box)))) []] else [])"
  by (simp add: FreeTextAnswer_init_def add_constraints_def el_append_def append_element_def
      XMLWrapper_init_def add_default_text_def set_number_of_lines_def Let_def)

lemma FreeTextAnswer_class_name:
  "class_name (FreeTextAnswer_init default_text lines_in_box reg_exp error_text min_length
                 max_length is_numeric min_val max_val) = ''FreeTextAnswer''"
  by (simp add: FreeTextAnswer_init_def add_constraints_def append_element_def
      XMLWrapper_init_def add_default_text_def set_number_of_lines_def Let_def)

lemma str_int_10: "str_int 10 = ''10''" by code_simp
lemma str_int_1: "str_int 1 = ''1''" by code_simp

text \<open>
  C2. A \<open>FreeTextAnswer\<close> built with \<open>is_numeric=True\<close> has one \<open>Constraints\<close> element
  holding only the \<open>IsNumeric\<close> element, whose attributes are among \<open>minValue\<close> and
  \<open>maxValue\<close>; whatever \<open>reg_exp\<close>, \<open>error_text\<close>, \<open>min_length\<close> and \<open>max_length\<close> are,
  no element of the compiled tree is tagged \<open>Length\<close> or \<open>AnswerFormatRegex\<close>.
\<close>

theorem numeric_answer_has_only_is_numeric:
  fixes default_text lines_in_box reg_exp error_text min_length max_length min_val max_val
  defines "self \<equiv> FreeTextAnswer_init default_text lines_in_box reg_exp error_text min_length
               max_length True min_val max_val"
  shows "elements self
     = [Element ''Constraints'' [] None [create_is_numeric min_val max_val]]
       @ (if truthy_str default_text
          then [Element ''DefaultText'' [] (Some (PyStr (the default_text))) []] else [])
       @ (if truthy_int lines_in_box
          then [Element ''NumberOfLinesSuggestion'' []
                  (Some (PyStr (str_int (the lines_in_box)))) []] else [])
   \<and> el_tag (create_is_numeric min_val max_val) = ''IsNumeric''
   \<and> el_children (create_is_numeric min_val max_val) = []
   \<and> set (map fst (el_attrib (create_is_numeric min_val max_val))) \<subseteq> {''minValue'', ''maxValue''}
   \<and> ''Length'' \<notin> set (tags (compile_elements self None))
   \<and> ''AnswerFormatRegex'' \<notin> set (tags (compile_elements self None))"
proof -
  have t: "tags (compile_elements self None)
      = ''FreeTextAnswer'' # ''Constraints'' # ''IsNumeric''
        # (if truthy_str default_text then [''DefaultText''] else [])
        @ (if truthy_int lines_in_box then [''NumberOfLinesSuggestion''] else [])"
    unfolding self_def
    by (simp add: compile_elements_def numeric_elements tags_is_numeric truthy_str_def
        FreeTextAnswer_class_name)
  show ?thesis
    unfolding t unfolding self_def numeric_elements
    using is_numeric_attrib_keys[of min_val max_val]
    by (simp add: create_is_numeric_def Let_def)
qed
theorem numeric_answer_has_only_is_numeric_witness:
  "compile_elements (FreeTextAnswer_init (Some ''7'') (Some 1) (Some ''[0-9]+'') (Some ''digits'')
       (Some 1) (Some 3) True (Some 0) (Some 10)) None
   = Element ''FreeTextAnswer'' [] None
       [Element ''Constraints'' [] None [Element ''IsNumeric'' [(''maxValue'', ''10'')] None []],
        Element ''DefaultText'' [] (Some (PyStr ''7'')) [],
        Element ''NumberOfLinesSuggestion'' [] (Some (PyStr ''1'')) []]"
  using numeric_answer_has_only_is_numeric [THEN conjunct1, of "Some ''7''" "Some 1" "Some ''[0-9]+''"
      "Some ''digits''" "Some 1" "Some 3" "Some 0" "Some 10"]
  by (simp add: compile_elements_def FreeTextAnswer_init_def XMLWrapper_init_def
      add_constraints_def append_element_def add_default_text_def set_number_of_lines_def
      create_is_numeric_def truthy_str_def truthy_int_def str_int_10 str_int_1 el_append_def
      Let_def)

lemma length_zero_is_absent:
  "add_length_constraints (Some 0) max_length = add_length_constraints None max_length"
  "add_length_constraints min_length (Some 0) = add_length_constraints min_length None"
  by (simp_all add: add_length_constraints_def truthy_int_def)

lemma unconstrained_elements:
  assumes "min_length = None \<or> min_length = Some 0" "max_length = None \<or> max_length = Some 0"
  shows "elements (FreeTextAnswer_init default_text lines_in_box None error_text min_length
               max_length False min_val max_val)
     = (if truthy_str default_text
          then [Element ''DefaultText'' [] (Some (PyStr (the default_text))) []] else [])
       @ (if truthy_int lines_in_box
          then [Element ''NumberOfLinesSuggestion'' []
                  (Some (PyStr (str_int (the lines_in_box)))) []] else [])"
  using assms
  by (auto simp: FreeTextAnswer_init_def append_element_def truthy_str_def truthy_int_def
      XMLWrapper_init_def add_default_text_def set_number_of_lines_def Let_def)

text \<open>
  C10. A length bound of 0 is treated as an absent bound: \<open>_add_length_constraints\<close> emits
  no \<open>minLength\<close> (\<open>maxLength\<close>) attribute for it and the answer built is the one built
  with \<open>None\<close>; with \<open>reg_exp\<close> absent, \<open>is_numeric\<close> false and both bounds 0 or absent,
  the compiled tree has no \<open>Constraints\<close> element.
\<close>

theorem zero_length_bound_is_absent:
  "add_length_constraints (Some 0) max_length = add_length_constraints None max_length
   \<and> add_length_constraints min_length (Some 0) = add_length_constraints min_length None
   \<and> ''minLength'' \<notin> set (map fst (el_attrib (add_length_constraints (Some 0) max_length)))
   \<and> ''maxLength'' \<notin> set (map fst (el_attrib (add_length_constraints min_length (Some 0))))
   \<and> FreeTextAnswer_init default_text lines_in_box reg_exp error_text (Some 0) max_length
         is_numeric min_val max_val
       = FreeTextAnswer_init default_text lines_in_box reg_exp error_text None max_length
         is_numeric min_val max_val
   \<and> FreeTextAnswer_init default_text lines_in_box reg_exp error_text min_length (Some 0)
         is_numeric min_val max_val
       = FreeTextAnswer_init default_text lines_in_box reg_exp error_text min_length None
         is_numeric min_val max_val
   \<and> (\<forall>lo \<in> {None, Some 0}. \<forall>hi \<in> {None, Some 0}.
         ''Constraints'' \<notin> set (tags (compile_elements
             (FreeTextAnswer_init default_text lines_in_box None error_text lo hi False
                min_val max_val) None)))"
proof -
  have keys: "''minLength'' \<notin> set (map fst (el_attrib (add_length_constraints (Some 0) max_length)))"
    "''maxLength'' \<notin> set (map fst (el_attrib (add_length_constraints min_length (Some 0))))"
    by (auto simp: add_length_constraints_def truthy_int_def Let_def)
  have init: "FreeTextAnswer_init default_text lines_in_box reg_exp error_text (Some 0) max_length
         is_numeric min_val max_val
       = FreeTextAnswer_init default_text lines_in_box reg_exp error_text None max_length
         is_numeric min_val max_val"
    "FreeTextAnswer_init default_text lines_in_box reg_exp error_text min_length (Some 0)
         is_numeric min_val max_val
       = FreeTextAnswer_init default_text lines_in_box reg_exp error_text min_length None
         is_numeric min_val max_val"
    by (simp_all add: FreeTextAnswer_init_def add_constraints_def length_zero_is_absent
        truthy_int_def Let_def)
  have none: "''Constraints'' \<notin> set (tags (compile_elements
             (FreeTextAnswer_init default_text lines_in_box None error_text lo hi False
                min_val max_val) None))"
    if "lo = None \<or> lo = Some 0" "hi = None \<or> hi = Some 0" for lo hi
    using unconstrained_elements[OF that]
    by (simp add: compile_elements_def FreeTextAnswer_class_name truthy_str_def)
  show ?thesis
    using keys init none length_zero_is_absent by simp
qed

theorem zero_length_bound_is_absent_witness:
  "compile_elements (FreeTextAnswer_init (Some ''C1'') None None None (Some 0) (Some 0) False
       None None) None
   = Element ''FreeTextAnswer'' [] None [Element ''DefaultText'' [] (Some (PyStr ''C1'')) []]
   \<and> ''Constraints'' \<notin> set (tags (compile_elements (FreeTextAnswer_init (Some ''C1'') None None
       None (Some 0) (Some 0) False None None) None))
   \<and> add_length_constraints (Some 0) (Some 2) = Element ''Length'' [(''maxLength'', ''2'')] None []"
proof -
  have two: "str_int 2 = ''2''" by code_simp
  have "Some 0 \<in> {None, Some (0::int)}" by simp
  with zero_length_bound_is_absent [of "Some 2" None "Some ''C1''" None None None False None None]
  show ?thesis
    by (simp add: compile_elements_def FreeTextAnswer_init_def XMLWrapper_init_def
      append_element_def add_default_text_def truthy_str_def truthy_int_def
      add_length_constraints_def two Let_def)
qed

section \<open>Question identifiers\<close>

lemma Question_init_id:
  "question_id (fst (Question_init content answer name is_required qid ID))
     = (if truthy_str qid then the qid else ''QuestionID_'' @ str_int ID)"
  by (simp add: Question_init_def add_id_def add_name_def add_is_required_def add_content_def
      add_answer_def append_element_def Let_def)

lemma Question_init_counter:
  "snd (Question_init content answer name is_required qid ID) = ID + 1"
  by (simp add: Question_init_def add_id_def Let_def)

lemma construct_questions_Cons:
  "construct_questions (a # as) ID =
     (fst (Question_init (arg_content a) (arg_answer a) (arg_name a) (arg_is_required a)
             (arg_question_id a) ID) # fst (construct_questions as (ID + 1)),
      snd (construct_questions as (ID + 1)))"
  using Question_init_counter[of "arg_content a" "arg_answer a" "arg_name a" "arg_is_required a"
      "arg_question_id a" ID]
  by (auto simp: Let_def split: prod.splits)

lemma construct_questions_length: "length (fst (construct_questions as ID)) = length as"
  by (induction as arbitrary: ID) (simp_all add: construct_questions_Cons del: construct_questions.simps(2))

lemma construct_questions_counter: "snd (construct_questions as ID) = ID + int (length as)"
  by (induction as arbitrary: ID) (simp_all add: construct_questions_Cons del: construct_questions.simps(2))

lemma construct_questions_id:
  "i < length as \<Longrightarrow>
   question_id (fst (construct_questions as ID) ! i)
     = (if truthy_str (arg_question_id (as ! i)) then the (arg_question_id (as ! i))
        else ''QuestionID_'' @ str_int (ID + int i))"
proof (induction as arbitrary: ID i)
  case Nil
  then show ?case by simp
next
  case (Cons a as)
  show ?case
  proof (cases i)
    case 0
    then show ?thesis
      by (simp add: construct_questions_Cons Question_init_id del: construct_questions.simps(2))
  next
    case (Suc k)
    with Cons.prems have "k < length as" by simp
    from Cons.IH[OF this, of "ID + 1"] Suc show ?thesis
      by (simp add: construct_questions_Cons add.assoc del: construct_questions.simps(2))
  qed
qed

lemma auto_assigned_numbers:
  "auto_assigned as (fst (construct_questions as ID))
     = map (\<lambda>n. ''QuestionID_'' @ str_int n) (auto_numbers as ID)"
  by (induction as arbitrary: ID)
     (simp_all add: auto_assigned_def construct_questions_Cons Question_init_id
        del: construct_questions.simps(2))

lemma auto_numbers_lower: "n \<in> set (auto_numbers as ID) \<Longrightarrow> ID \<le> n"
  by (induction as arbitrary: ID) (fastforce split: if_splits)+

lemma auto_numbers_increasing: "sorted_wrt (<) (auto_numbers as ID)"
proof (induction as arbitrary: ID)
  case Nil
  then show ?case by simp
next
  case (Cons a as)
  have "ID < n" if "n \<in> set (auto_numbers as (ID + 1))" for n
    using auto_numbers_lower[OF that] by simp
  with Cons.IH[of "ID + 1"] show ?case by simp
qed

lemma question_id_format_inj: "inj (\<lambda>n. ''QuestionID_'' @ str_int n)"
  by (rule injI) (simp add: str_int_inj)

lemma example_constructions_ids:
  "map question_id (fst (construct_questions example_constructions initial_ID))
     = [''QuestionID_1'', ''mine'', ''QuestionID_3'']"
  "auto_assigned example_constructions (fst (construct_questions example_constructions initial_ID))
     = [''QuestionID_1'', ''QuestionID_3'']"
  "snd (construct_questions example_constructions initial_ID) = 4"
  by code_simp+

text \<open>
  C6. In a run of constructions from the initial counter, the identifiers of the questions
  constructed without a caller-supplied id are \<open>QuestionID_n\<close> for numbers \<open>n \<ge> 1\<close> that
  increase strictly in construction order, so none repeats; the first construction of a
  process, when it supplies no id, gets \<open>QuestionID_1\<close>. The counter belongs to the class,
  not to a form.
\<close>

theorem auto_assigned_ids_increase:
  "(\<exists>ns. auto_assigned as (fst (construct_questions as initial_ID))
            = map (\<lambda>n. ''QuestionID_'' @ str_int n) ns
         \<and> sorted_wrt (<) ns \<and> distinct ns \<and> (\<forall>n \<in> set ns. 1 \<le> n))
   \<and> distinct (auto_assigned as (fst (construct_questions as initial_ID)))
   \<and> question_id (fst (Question_init content answer name is_required None initial_ID))
       = ''QuestionID_1''"
proof -
  let ?ns = "auto_numbers as initial_ID"
  have d: "distinct ?ns"
    using auto_numbers_increasing[of as initial_ID] strict_sorted_iff by blast
  have one: "str_int 1 = ''1''" by code_simp
  have "\<forall>n \<in> set ?ns. 1 \<le> n"
    using auto_numbers_lower[of _ as initial_ID] by (simp add: initial_ID_def)
  moreover have "distinct (map (\<lambda>n. ''QuestionID_'' @ str_int n) ?ns)"
    using d question_id_format_inj by (simp add: distinct_map inj_on_def inj_def)
  ultimately show ?thesis
    using auto_assigned_numbers[of as initial_ID] auto_numbers_increasing[of as initial_ID] d
    by (auto simp: Question_init_id truthy_str_def initial_ID_def one)
qed


theorem auto_assigned_ids_increase_witness:
  "auto_assigned example_constructions
     (fst (construct_questions example_constructions initial_ID))
     = map (\<lambda>n. ''QuestionID_'' @ str_int n) [1, 3]
   \<and> distinct (auto_assigned example_constructions
        (fst (construct_questions example_constructions initial_ID)))"
proof -
  have "str_int 1 = ''1''" "str_int 3 = ''3''" by code_simp+
  with auto_assigned_ids_increase [of example_constructions] example_constructions_ids(2)
  show ?thesis by simp
qed

text \<open>
  C9. Every construction advances the counter by one, also with a caller-supplied id, so
  a run of constructions advances it by their number; an automatic identifier after a
  caller-supplied one skips a value (\<open>QuestionID_2\<close> is the first automatic identifier
  below); two automatic identifiers of one run differ.
\<close>

theorem every_construction_advances_counter:
  "snd (Question_init content answer name is_required qid ID) = ID + 1
   \<and> snd (construct_questions as ID) = ID + int (length as)
   \<and> map question_id (fst (construct_questions
         [QuestionArgs content answer name is_required (Some ''mine''),
          QuestionArgs content answer name is_required None] initial_ID))
       = [''mine'', ''QuestionID_2'']
   \<and> (\<forall>i j. i < j \<and> j < length as
          \<and> \<not> truthy_str (arg_question_id (as ! i)) \<and> \<not> truthy_str (arg_question_id (as ! j))
        \<longrightarrow> question_id (fst (construct_questions as ID) ! i)
              \<noteq> question_id (fst (construct_questions as ID) ! j))"
proof -
  have two: "str_int 2 = ''2''" by code_simp
  have skip: "map question_id (fst (construct_questions
         [QuestionArgs content answer name is_required (Some ''mine''),
          QuestionArgs content answer name is_required None] initial_ID))
       = [''mine'', ''QuestionID_2'']"
    by (simp add: construct_questions_Cons Question_init_id truthy_str_def initial_ID_def two
        del: construct_questions.simps(2))
  have differ: "question_id (fst (construct_questions as ID) ! i)
              \<noteq> question_id (fst (construct_questions as ID) ! j)"
    if "i < j" "j < length as" "\<not> truthy_str (arg_question_id (as ! i))"
      "\<not> truthy_str (arg_question_id (as ! j))" for i j
  proof -
    from that have "i < length as" by simp
    with that construct_questions_id[of i as ID] construct_questions_id[of j as ID]
    show ?thesis by (auto dest: str_int_inj)
  qed
  show ?thesis
    using skip differ by (simp add: Question_init_counter construct_questions_counter)
qed

theorem every_construction_advances_counter_witness:
  "snd (Question_init Content_init (SelectionAnswer_init [] None None None) None False
          (Some ''mine'') initial_ID) = 2
   \<and> question_id (fst (construct_questions example_constructions initial_ID) ! 0)
       \<noteq> question_id (fst (construct_questions example_constructions initial_ID) ! 2)"
proof -
  note t = every_construction_advances_counter [of Content_init
      "SelectionAnswer_init [] None None None" None False "Some ''mine''" initial_ID
      example_constructions]
  have h: "(0::nat) < 2 \<and> 2 < length example_constructions
     \<and> \<not> truthy_str (arg_question_id (example_constructions ! 0))
     \<and> \<not> truthy_str (arg_question_id (example_constructions ! 2))"
    by (simp add: example_constructions_def truthy_str_def)
  from t have "snd (Question_init Content_init (SelectionAnswer_init [] None None None) None
      False (Some ''mine'') initial_ID) = initial_ID + 1"
    by (rule conjunct1)
  moreover from t h have "question_id (fst (construct_questions example_constructions initial_ID) ! 0)
       \<noteq> question_id (fst (construct_questions example_constructions initial_ID) ! 2)"
    by blast
  ultimately show ?thesis by (simp add: initial_ID_def)
qed

section \<open>Rendering of formatted text and selection counts\<close>

lemma serialize_formatted_text:
  "serialize_xml (compile_elements (add_formatted_text text Content_init) None)
     = Inr (''<Content><FormattedContent>&lt;![CDATA[''
            @ str_replace CHR ''>'' ''&gt;'' (str_replace CHR ''<'' ''&lt;''
                (str_replace CHR ''&'' ''&amp;'' text))
            @ '']]&gt;</FormattedContent></Content>'')"
  by (simp add: compile_elements_def add_formatted_text_def Content_init_def XMLWrapper_init_def
      append_element_def truthy_str_def truthy_def escape_cdata_def str_replace_append)

text \<open>
  C1. What the code does at \<open>Content().add_formatted_text("<b>x</b>")\<close>, rendered with
  \<open>formatted=False\<close>: the serializer escapes the text of \<open>FormattedContent\<close>, so the
  wrapper and the markup come out as \<open>&lt;![CDATA[&lt;b&gt;x&lt;/b&gt;]]&gt;\<close>, not as a literal
  CDATA section. With \<open>formatted=True\<close> that escaped text is what the pretty-printer
  is given. The same holds for every text: it is what \<open>_serialize_xml\<close> writes.
\<close>

theorem formatted_text_is_escaped:
  "to_string toprettyxml (add_formatted_text ''<b>x</b>'' Content_init) False False 4
     = Inr ''<Content><FormattedContent>&lt;![CDATA[&lt;b&gt;x&lt;/b&gt;]]&gt;</FormattedContent></Content>''
   \<and> to_string toprettyxml (add_formatted_text ''<b>x</b>'' Content_init) False True 4
     = (case toprettyxml ''    '' (xml_declaration @
          ''<Content><FormattedContent>&lt;![CDATA[&lt;b&gt;x&lt;/b&gt;]]&gt;</FormattedContent></Content>'') of
          Inl e \<Rightarrow> Inl e
        | Inr tree_str \<Rightarrow> Inr (drop 1 (re_sub_decl tree_str)))
   \<and> serialize_xml (compile_elements (add_formatted_text text Content_init) None)
     = Inr (''<Content><FormattedContent>&lt;![CDATA[''
            @ str_replace CHR ''>'' ''&gt;'' (str_replace CHR ''<'' ''&lt;''
                (str_replace CHR ''&'' ''&amp;'' text))
            @ '']]&gt;</FormattedContent></Content>'')"
proof -
  have e: "ET_tostring (compile_elements (add_formatted_text ''<b>x</b>'' Content_init) None)
     = Inr (xml_declaration @
          ''<Content><FormattedContent>&lt;![CDATA[&lt;b&gt;x&lt;/b&gt;]]&gt;</FormattedContent></Content>'')"
    by (simp add: ET_tostring_def serialize_formatted_text xmlcharrefreplace_def
        xml_declaration_def)
  have "to_string toprettyxml (add_formatted_text ''<b>x</b>'' Content_init) False False 4
     = Inr ''<Content><FormattedContent>&lt;![CDATA[&lt;b&gt;x&lt;/b&gt;]]&gt;</FormattedContent></Content>''"
    by (simp add: to_string_def e) (simp add: xml_declaration_def)
  moreover have "to_string toprettyxml (add_formatted_text ''<b>x</b>'' Content_init) False True 4
     = (case toprettyxml ''    '' (xml_declaration @
          ''<Content><FormattedContent>&lt;![CDATA[&lt;b&gt;x&lt;/b&gt;]]&gt;</FormattedContent></Content>'') of
          Inl e \<Rightarrow> Inl e
        | Inr tree_str \<Rightarrow> Inr (drop 1 (re_sub_decl tree_str)))"
    by (simp add: to_string_def e eval_nat_numeral split: sum.splits)
  ultimately show ?thesis by (simp add: serialize_formatted_text)
qed

text \<open>
  C7. What the code does for \<open>SelectionAnswer({"a": "Apple", "b": "Banana"},
  min_selections=1, max_selections=1)\<close>: the tree is built with \<open>MinSelectionCount\<close>,
  \<open>MaxSelectionCount\<close> and \<open>Selections\<close> in that order, but the two counts hold the
  integer 1 as text, and \<open>to_string\<close> raises \<open>TypeError\<close> instead of rendering, whatever
  its options.
\<close>

theorem selection_counts_do_not_serialize:
  "to_string toprettyxml
     (SelectionAnswer_init [(''a'', ''Apple''), (''b'', ''Banana'')] None (Some 1) (Some 1))
     url_safe formatted indent
     = Inl (TypeError_cannot_serialize (PyInt 1))
   \<and> compile_elements
       (SelectionAnswer_init [(''a'', ''Apple''), (''b'', ''Banana'')] None (Some 1) (Some 1)) None
     = Element ''SelectionAnswer'' [] None
         [Element ''MinSelectionCount'' [] (Some (PyInt 1)) [],
          Element ''MaxSelectionCount'' [] (Some (PyInt 1)) [],
          Element ''Selections'' [] None
            [Element ''Selection'' [] None
               [Element ''SelectionIdentifier'' [] (Some (PyStr ''a'')) [],
                Element ''Text'' [] (Some (PyStr ''Apple'')) []],
             Element ''Selection'' [] None
               [Element ''SelectionIdentifier'' [] (Some (PyStr ''b'')) [],
                Element ''Text'' [] (Some (PyStr ''Banana'')) []]]]"
proof -
  have c: "compile_elements
       (SelectionAnswer_init [(''a'', ''Apple''), (''b'', ''Banana'')] None (Some 1) (Some 1)) None
     = Element ''SelectionAnswer'' [] None
         [Element ''MinSelectionCount'' [] (Some (PyInt 1)) [],
          Element ''MaxSelectionCount'' [] (Some (PyInt 1)) [],
          Element ''Selections'' [] None
            [Element ''Selection'' [] None
               [Element ''SelectionIdentifier'' [] (Some (PyStr ''a'')) [],
                Element ''Text'' [] (Some (PyStr ''Apple'')) []],
             Element ''Selection'' [] None
               [Element ''SelectionIdentifier'' [] (Some (PyStr ''b'')) [],
                Element ''Text'' [] (Some (PyStr ''Banana'')) []]]]"
    by (simp add: compile_elements_def SelectionAnswer_init_def XMLWrapper_init_def
        add_min_selections_def add_max_selections_def add_selections_def append_element_def
        truthy_int_def truthy_str_def Let_def)
  show ?thesis
    by (simp add: c to_string_def ET_tostring_def truthy_def escape_cdata_def)
qed

section \<open>The last segment of a split\<close>

lemma split_nonempty: "split c s \<noteq> []"
  by (induction s) (auto split: list.splits)

lemma split_no_separator: "c \<notin> set s \<Longrightarrow> split c s = [s]"
  by (induction s) auto

lemma split_separator: "c \<in> set s \<Longrightarrow> \<exists>y z zs. split c s = y # z # zs"
proof (induction s)
  case Nil
  then show ?case by simp
next
  case (Cons x xs)
  show ?case
  proof (cases "x = c")
    case True
    then show ?thesis using split_nonempty[of c xs] by (cases "split c xs") auto
  next
    case False
    with Cons.prems have "c \<in> set xs" by simp
    from Cons.IH[OF this] False show ?thesis by auto
  qed
qed

lemma takeWhile_no_separator: "c \<notin> set ys \<Longrightarrow> takeWhile (\<lambda>x. x \<noteq> c) ys = ys"
  by (induction ys) auto

lemma last_split: "last (split c s) = rev (takeWhile (\<lambda>x. x \<noteq> c) (rev s))"
proof (induction s)
  case Nil
  then show ?case by simp
next
  case (Cons x xs)
  show ?case
  proof (cases "x = c")
    case True
    with Cons.IH show ?thesis
      by (simp add: split_nonempty takeWhile_tail)
  next
    case False
    show ?thesis
    proof (cases "c \<in> set xs")
      case True
      from split_separator[OF this] obtain y z zs where s: "split c xs = y # z # zs" by blast
      from True have "\<not> (\<forall>e \<in> set (rev xs). e \<noteq> c)" by simp
      then have "takeWhile (\<lambda>x. x \<noteq> c) (rev xs @ [x]) = takeWhile (\<lambda>x. x \<noteq> c) (rev xs)"
        by (metis (mono_tags, lifting) takeWhile_append1)
      with Cons.IH s False show ?thesis by simp
    next
      case c: False
      with False have "takeWhile (\<lambda>x. x \<noteq> c) (rev (x # xs)) = rev (x # xs)"
        by (intro takeWhile_no_separator) simp
      then have "rev (takeWhile (\<lambda>x. x \<noteq> c) (rev (x # xs))) = x # xs"
        by (simp only: rev_rev_ident)
      moreover from c False have "last (split c (x # xs)) = x # xs"
        by (simp add: split_no_separator)
      ultimately show ?thesis by (simp only:)
    qed
  qed
qed

lemma last_split_suffix: "c \<notin> set e \<Longrightarrow> last (split c (stem @ c # e)) = e"
  by (simp add: last_split takeWhile_tail takeWhile_no_separator)

section \<open>Images\<close>

lemma add_image_elements:
  "elements (add_image url alt_text Content_init)
     = [Element ''Binary'' [] None
          [Element ''MimeType'' [] None
             (Element ''Type'' [] (Some (PyStr ''image'')) []
              # (if rev (takeWhile (\<lambda>x. x \<noteq> CHR ''.'') (rev url)) = [] then []
                 else [Element ''SubType'' []
                         (Some (PyStr (rev (takeWhile (\<lambda>x. x \<noteq> CHR ''.'') (rev url))))) []])),
           Element ''DataURL'' [] (Some (PyStr url)) [],
           Element ''AltText'' [] (Some (PyStr alt_text)) []]]"
  by (simp add: add_image_def Content_init_def XMLWrapper_init_def append_element_def
      last_split Let_def)

text \<open>
  C5. What the code does for a URL without a file extension: for
  \<open>http://tictactoe.amazon.com/game/01523/board\<close> the \<open>SubType\<close> element is emitted with
  the text after the last dot of the host name, and for \<open>board\<close>, which has no dot at all,
  with the whole URL.
\<close>

theorem image_subtype_without_extension:
  "elements (add_image ''http://tictactoe.amazon.com/game/01523/board'' ''The game board''
       Content_init)
     = [Element ''Binary'' [] None
          [Element ''MimeType'' [] None
             [Element ''Type'' [] (Some (PyStr ''image'')) [],
              Element ''SubType'' [] (Some (PyStr ''com/game/01523/board'')) []],
           Element ''DataURL'' [] (Some (PyStr ''http://tictactoe.amazon.com/game/01523/board'')) [],
           Element ''AltText'' [] (Some (PyStr ''The game board'')) []]]
   \<and> elements (add_image ''board'' ''The game board'' Content_init)
     = [Element ''Binary'' [] None
          [Element ''MimeType'' [] None
             [Element ''Type'' [] (Some (PyStr ''image'')) [],
              Element ''SubType'' [] (Some (PyStr ''board'')) []],
           Element ''DataURL'' [] (Some (PyStr ''board'')) [],
           Element ''AltText'' [] (Some (PyStr ''The game board'')) []]]"
  by (simp add: add_image_def Content_init_def XMLWrapper_init_def append_element_def Let_def)

section \<open>The credential loader and unknown extensions\<close>

text \<open>
  When the text after the last \<open>.\<close> of the path, as \<open>from_file\<close> computes it, is neither
  \<open>csv\<close> nor \<open>json\<close>, \<open>from_file\<close> raises \<open>Unknown file extension\<close>: no file is
  opened, no reader is called and no field changes. This covers every path \<open>stem.ext\<close>
  with such an \<open>ext\<close>.
\<close>

lemma unknown_extension_raises:
  assumes "last (split CHR ''.'' file_path) \<noteq> ''csv''"
    and "last (split CHR ''.'' file_path) \<noteq> ''json''"
  shows "from_file first_row json_load fs file_path self opened
           = (Some (Exception ''Unknown file extension''), self, opened)"
  using assms by (simp add: from_file_def)

lemma other_extension_raises:
  assumes "CHR ''.'' \<notin> set ext" and "ext \<noteq> ''csv''" and "ext \<noteq> ''json''"
  shows "from_file first_row json_load fs (stem @ CHR ''.'' # ext) self opened
           = (Some (Exception ''Unknown file extension''), self, opened)"
  using assms by (simp add: unknown_extension_raises last_split_suffix)

lemma txt_extension_raises:
  "from_file first_row json_load fs (stem @ ''.txt'') self opened
     = (Some (Exception ''Unknown file extension''), self, opened)"
  using other_extension_raises [of "''txt''" first_row json_load fs stem self opened] by simp

text \<open>
  C8. What the code does for the path \<open>csv\<close>, a file name without extension: the split
  has one entry, the name itself, so \<open>from_file\<close> takes it for a CSV file and opens it,
  whatever the file system holds; when the file is there and its first row has the five
  columns, the fields are updated.
\<close>

theorem bare_csv_name_is_opened:
  "snd (snd (from_file first_row json_load fs ''csv'' self opened)) = opened @ [''csv'']
   \<and> from_file (\<lambda>contents. Inr example_credentials) json_load
         [''csv'' \<mapsto> ''User name,Password''] ''csv'' AmazonIAMUser_init []
       = (None,
          \<lparr>user_name = Some ''alice'', password = Some ''pw'', access_key_id = Some ''AKIA'',
           secret_access_key = Some ''secret'', console_login_link = Some ''https://console''\<rparr>,
          [''csv''])"
proof -
  have "snd (snd (from_file first_row json_load fs ''csv'' self opened)) = opened @ [''csv'']"
    by (simp add: from_file_def load_file_def Let_def split: option.splits sum.splits prod.splits)
  moreover have "from_file (\<lambda>contents. Inr example_credentials) json_load
         [''csv'' \<mapsto> ''User name,Password''] ''csv'' AmazonIAMUser_init []
       = (None,
          \<lparr>user_name = Some ''alice'', password = Some ''pw'', access_key_id = Some ''AKIA'',
           secret_access_key = Some ''secret'', console_login_link = Some ''https://console''\<rparr>,
          [''csv''])"
    by (simp add: from_file_def load_file_def update_fields_def example_credentials_def
        AmazonIAMUser_init_def Let_def)
  ultimately show ?thesis by simp
qed

end
